theory Spec2Isabelle
  imports Complex_Main "HOL-Library.Product_Lexorder" "HOL-Library.Multiset"
begin

section \<open>Data model\<close>

text \<open>
  A calendar date (Python's \<^verbatim>\<open>datetime.date\<close>) is the triple (year, month, day); dates
  compare lexicographically, as Python and pandas compare them. The detour of
  \<^verbatim>\<open>TRMData.to_dict\<close> through the string \<^verbatim>\<open>%Y-%m-%d\<close> and back through
  \<^verbatim>\<open>pd.to_datetime\<close> is the identity on the dates that a pandas timestamp can hold, and
  is modelled as the identity.

  Numbers: an observation carries a finite value, a \<^typ>\<open>real\<close> (no observation is missing
  or NaN), and arithmetic on finite values is exact: the rounding of binary64 is not part
  of this model. What pandas and numpy compute from finite values can still be infinite or
  NaN (a division by zero, an empty or too short window, the sample deviation of one
  point), so computed numbers have the type \<open>fl\<close>. Zero has no sign here.

  An exception that a function lets escape is the \<open>Inl\<close> of its result.
\<close>

type_synonym date = "nat \<times> nat \<times> nat"

datatype fl = Fin real | PInf | NInf | NaN

datatype error = ValueError | IndexError

record TRMData =
  fecha :: date
  valor :: real

record TRMStatistics =
  min_value :: fl
  max_value :: fl
  avg_value :: fl
  median_value :: fl
  std_dev :: fl
  count :: nat
  start_date :: date
  end_date :: date
  start_value :: fl
  end_value :: fl
  change :: fl
  change_pct :: fl

record TRMVariation =
  v_fecha :: date
  v_valor :: real
  variacion_pct :: fl

record TRMMovingAverage =
  ma_fecha :: date
  ma_valor :: real
  promedio_movil :: "fl option"
  window :: int

text \<open>A row of the data frame built from the observations: the columns \<^verbatim>\<open>fecha\<close> and \<^verbatim>\<open>trm\<close>.\<close>

type_synonym row = "date \<times> real"

section \<open>Floating-point values with infinities and NaN\<close>

definition isna :: "fl \<Rightarrow> bool" where
  "isna x = (x = NaN)"

fun fl_sgn :: "fl \<Rightarrow> int" where
  "fl_sgn (Fin a) = (if a > 0 then 1 else if a < 0 then -1 else 0)"
| "fl_sgn PInf = 1"
| "fl_sgn NInf = -1"
| "fl_sgn NaN = 0"

definition signed_inf :: "int \<Rightarrow> fl" where
  "signed_inf s = (if s > 0 then PInf else if s < 0 then NInf else NaN)"

fun fl_sub :: "fl \<Rightarrow> fl \<Rightarrow> fl" where
  "fl_sub (Fin a) (Fin b) = Fin (a - b)"
| "fl_sub NaN y = NaN"
| "fl_sub x NaN = NaN"
| "fl_sub PInf PInf = NaN"
| "fl_sub NInf NInf = NaN"
| "fl_sub PInf y = PInf"
| "fl_sub NInf y = NInf"
| "fl_sub x PInf = NInf"
| "fl_sub x NInf = PInf"

fun fl_mul :: "fl \<Rightarrow> fl \<Rightarrow> fl" where
  "fl_mul (Fin a) (Fin b) = Fin (a * b)"
| "fl_mul NaN y = NaN"
| "fl_mul x NaN = NaN"
| "fl_mul x y = signed_inf (fl_sgn x * fl_sgn y)"

text \<open>Division as numpy does it on binary64: a division by zero gives an infinity or NaN
  (with a warning), never an exception.\<close>

fun fl_div :: "fl \<Rightarrow> fl \<Rightarrow> fl" where
  "fl_div (Fin a) (Fin b) = (if b = 0 then signed_inf (fl_sgn (Fin a)) else Fin (a / b))"
| "fl_div NaN y = NaN"
| "fl_div x NaN = NaN"
| "fl_div (Fin a) y = Fin 0"
| "fl_div x (Fin b) = signed_inf (fl_sgn x * (if b < 0 then -1 else 1))"
| "fl_div x y = NaN"

fun fl_abs :: "fl \<Rightarrow> fl" where
  "fl_abs (Fin a) = Fin \<bar>a\<bar>"
| "fl_abs PInf = PInf"
| "fl_abs NInf = PInf"
| "fl_abs NaN = NaN"

text \<open>The comparisons \<^verbatim>\<open>>\<close> and \<^verbatim>\<open><=\<close>: false as soon as one side is NaN.\<close>

fun fl_gt :: "fl \<Rightarrow> fl \<Rightarrow> bool" where
  "fl_gt (Fin a) (Fin b) = (a > b)"
| "fl_gt NaN y = False"
| "fl_gt x NaN = False"
| "fl_gt NInf y = False"
| "fl_gt x PInf = False"
| "fl_gt PInf y = True"
| "fl_gt x NInf = True"


section \<open>The data frame operations used by the service\<close>

definition to_dict :: "TRMData \<Rightarrow> row" where
  "to_dict item = (fecha item, valor item)"

definition DataFrame :: "TRMData list \<Rightarrow> row list" where
  "DataFrame data = map to_dict data"

text \<open>\<^verbatim>\<open>df.sort_values('fecha')\<close>: ascending by date. Rows of equal date keep their order
  here; the data model has unique dates, for which the ascending order is unique.\<close>

definition sort_values :: "row list \<Rightarrow> row list" where
  "sort_values df = sort_key fst df"

definition fecha_col :: "row list \<Rightarrow> date list" where
  "fecha_col df = map fst df"

definition trm_col :: "row list \<Rightarrow> real list" where
  "trm_col df = map snd df"

text \<open>\<^verbatim>\<open>df.iloc[i]\<close>: positional, a negative index counts from the end, out of range
  raises IndexError.\<close>

definition iloc :: "'a list \<Rightarrow> int \<Rightarrow> error + 'a" where
  "iloc df i =
     (if 0 \<le> i \<and> i < int (length df) then Inr (df ! nat i)
      else if i < 0 \<and> - int (length df) \<le> i then Inr (df ! nat (int (length df) + i))
      else Inl IndexError)"

text \<open>The reductions of a numeric column; on an empty column pandas gives NaN.\<close>

fun series_min :: "real list \<Rightarrow> fl" where
  "series_min [] = NaN"
| "series_min (x # xs) = Fin (fold min xs x)"

fun series_max :: "real list \<Rightarrow> fl" where
  "series_max [] = NaN"
| "series_max (x # xs) = Fin (fold max xs x)"

definition series_mean :: "real list \<Rightarrow> fl" where
  "series_mean xs = (if xs = [] then NaN else Fin (sum_list xs / real (length xs)))"

definition series_median :: "real list \<Rightarrow> fl" where
  "series_median xs =
     (let s = sort xs; n = length s
      in if n = 0 then NaN
         else if odd n then Fin (s ! (n div 2))
         else Fin ((s ! (n div 2 - 1) + s ! (n div 2)) / 2))"

text \<open>\<^verbatim>\<open>Series.std()\<close>: the sample standard deviation (ddof = 1); NaN when the number
  of values does not exceed ddof.\<close>

definition series_std :: "real list \<Rightarrow> fl" where
  "series_std xs =
     (let n = length xs
      in if n \<le> 1 then NaN
         else let m = sum_list xs / real n
              in Fin (sqrt (sum_list (map (\<lambda>x. (x - m)\<^sup>2) xs) / real (n - 1))))"

text \<open>The minimum and maximum of the date column; \<open>None\<close> is NaT, whose \<^verbatim>\<open>.date()\<close> raises
  ValueError.\<close>

fun date_min :: "date list \<Rightarrow> date option" where
  "date_min [] = None"
| "date_min (d # ds) = Some (fold min ds d)"

fun date_max :: "date list \<Rightarrow> date option" where
  "date_max [] = None"
| "date_max (d # ds) = Some (fold max ds d)"

section \<open>TRMService (src/domain/services/trm\_service.py)\<close>

definition calculate_statistics :: "TRMData list \<Rightarrow> error + TRMStatistics option" where
  "calculate_statistics data =
     (if data = [] then Inr None
      else
        let df = sort_values (DataFrame data) in
        case (date_min (fecha_col df), date_max (fecha_col df)) of
          (Some d0, Some d1) \<Rightarrow>
            (case (iloc df 0, iloc df (-1)) of
               (Inr r0, Inr r1) \<Rightarrow>
                 Inr (Some \<lparr>
                   min_value = series_min (trm_col df),
                   max_value = series_max (trm_col df),
                   avg_value = series_mean (trm_col df),
                   median_value = series_median (trm_col df),
                   std_dev = series_std (trm_col df),
                   count = length df,
                   start_date = d0,
                   end_date = d1,
                   start_value = Fin (snd r0),
                   end_value = Fin (snd r1),
                   change = fl_sub (Fin (snd r1)) (Fin (snd r0)),
                   change_pct = fl_mul (fl_sub (fl_div (Fin (snd r1)) (Fin (snd r0))) (Fin 1)) (Fin 100)\<rparr>)
             | _ \<Rightarrow> Inl IndexError)
        | _ \<Rightarrow> Inl ValueError)"

text \<open>
  \<^verbatim>\<open>Series.rolling(window=window).mean()\<close> with an integer window: a negative window is
  rejected with ValueError when the rolling object is built; otherwise the window at
  position \<open>i\<close> holds the rows \<open>max 0 (i + 1 - window) ..< i + 1\<close>, \<^verbatim>\<open>min_periods\<close> defaults
  to the window size, and a window with fewer than \<^verbatim>\<open>min_periods\<close> rows, or with no row,
  has the mean NaN.
\<close>

definition get_window_bounds :: "nat \<Rightarrow> nat \<Rightarrow> nat \<times> nat" where
  "get_window_bounds window_size i = (i + 1 - window_size, i + 1)"

definition window_mean :: "nat \<Rightarrow> real list \<Rightarrow> fl" where
  "window_mean min_periods win =
     (let nobs = length win
      in if min_periods \<le> nobs \<and> 0 < nobs then Fin (sum_list win / real nobs) else NaN)"

definition rolling_mean :: "int \<Rightarrow> real list \<Rightarrow> error + fl list" where
  "rolling_mean w xs =
     (if w < 0 then Inl ValueError
      else
        let window_size = nat w; min_periods = window_size in
        Inr (map (\<lambda>i. case get_window_bounds window_size i of
                         (s, e) \<Rightarrow> window_mean min_periods (take (e - s) (drop s xs)))
                 [0..<length xs]))"

definition calculate_moving_average :: "TRMData list \<Rightarrow> int \<Rightarrow> error + TRMMovingAverage list" where
  "calculate_moving_average data w =
     (if data = [] then Inr []
      else
        let df = sort_values (DataFrame data) in
        case rolling_mean w (trm_col df) of
          Inl e \<Rightarrow> Inl e
        | Inr ma \<Rightarrow>
            Inr (map (\<lambda>(r, m). \<lparr>ma_fecha = fst r, ma_valor = snd r,
                                 promedio_movil = (if isna m then None else Some m),
                                 window = w\<rparr>)
                     (zip df ma)))"

text \<open>
  \<^verbatim>\<open>Series.pct_change()\<close> is \<^verbatim>\<open>s / s.shift(1) - 1\<close>: the shifted column starts with NaN
  (there is nothing to fill forward, the values being finite).
\<close>

definition shift :: "real list \<Rightarrow> fl list" where
  "shift xs = take (length xs) (NaN # map Fin xs)"

definition pct_change :: "real list \<Rightarrow> fl list" where
  "pct_change xs = map (\<lambda>(x, p). fl_sub (fl_div (Fin x) p) (Fin 1)) (zip xs (shift xs))"

definition find_extreme_variations :: "TRMData list \<Rightarrow> fl \<Rightarrow> error + TRMVariation list" where
  "find_extreme_variations data threshold_pct =
     (if data = [] then Inr []
      else
        let df = sort_values (DataFrame data);
            var_pct = map (\<lambda>c. fl_mul c (Fin 100)) (pct_change (trm_col df));
            extreme_df = filter (\<lambda>(r, v). fl_gt (fl_abs v) threshold_pct) (zip df var_pct)
        in Inr (map (\<lambda>(r, v). \<lparr>v_fecha = fst r, v_valor = snd r, variacion_pct = v\<rparr>)
                    (filter (\<lambda>(r, v). \<not> isna v) extreme_df)))"

section \<open>TRMRepository (python\_app/src/infrastructure/repositories/trm\_repository.py)\<close>

text \<open>
  The repository keeps the loaded frame in \<^verbatim>\<open>_data_df\<close>. \<open>csv_rows\<close> stands for the file
  behind \<^verbatim>\<open>data_path\<close>: the rows that \<^verbatim>\<open>pd.read_csv\<close> and the date conversion produce,
  or \<open>None\<close> when reading raises (the frame then stays unset). A function that assigns to
  \<^verbatim>\<open>self\<close> returns the repository next to its result. The bounds are \<^verbatim>\<open>date\<close> objects,
  which are always truthy, so a bound is skipped exactly when it is \<open>None\<close>. The parameters
  \<^verbatim>\<open>start_date\<close> and \<^verbatim>\<open>end_date\<close> are written \<open>start_arg\<close> and \<open>end_arg\<close>, the
  names being taken by the fields of the statistics record.
\<close>

record TRMRepository =
  csv_rows :: "row list option"
  data_df :: "row list option"

definition load_data :: "TRMRepository \<Rightarrow> bool \<times> TRMRepository" where
  "load_data repo =
     (case csv_rows repo of
        None \<Rightarrow> (False, repo)
      | Some rows \<Rightarrow> (True, repo\<lparr>data_df := Some (sort_values rows)\<rparr>))"

definition get_by_date_range ::
  "TRMRepository \<Rightarrow> date option \<Rightarrow> date option \<Rightarrow> TRMData list \<times> TRMRepository" where
  "get_by_date_range repo start_arg end_arg =
     (case (if data_df repo = None then load_data repo else (True, repo)) of
        (ok, repo') \<Rightarrow>
          if \<not> ok then ([], repo')
          else (case data_df repo' of
                  None \<Rightarrow> ([], repo')
                | Some df \<Rightarrow>
                    let filtered_df = (case start_arg of
                                         None \<Rightarrow> df
                                       | Some s \<Rightarrow> filter (\<lambda>r. s \<le> fst r) df);
                        filtered_df = (case end_arg of
                                         None \<Rightarrow> filtered_df
                                       | Some e \<Rightarrow> filter (\<lambda>r. fst r \<le> e) filtered_df)
                    in (map (\<lambda>r. \<lparr>fecha = fst r, valor = snd r\<rparr>) filtered_df, repo')))"

section \<open>Parsing the bounds\<close>






section \<open>TRMApplicationService (src/application/services/trm\_application\_service.py)\<close>



section \<open>The two data loaders\<close>




section \<open>The contracts in the words of the specification\<close>

text \<open>The range filter of a series: the repository's filter on a frame that holds the
  series.\<close>

definition range_filter ::
  "TRMRepository \<Rightarrow> TRMData list \<Rightarrow> date option \<Rightarrow> date option \<Rightarrow> TRMData list" where
  "range_filter repo S a b = fst (get_by_date_range (repo\<lparr>data_df := Some (DataFrame S)\<rparr>) a b)"

text \<open>An observation is in range when its date is at least the start bound, if given, and
  at most the end bound, if given.\<close>

definition in_range :: "date option \<Rightarrow> date option \<Rightarrow> TRMData \<Rightarrow> bool" where
  "in_range a b d =
     ((case a of None \<Rightarrow> True | Some s \<Rightarrow> s \<le> fecha d)
      \<and> (case b of None \<Rightarrow> True | Some e \<Rightarrow> fecha d \<le> e))"



text \<open>The arithmetic mean of the \<open>W\<close> values that end at position \<open>i\<close>.\<close>

definition trailing_mean :: "TRMData list \<Rightarrow> nat \<Rightarrow> nat \<Rightarrow> real" where
  "trailing_mean S W i = sum_list (map (\<lambda>j. valor (S ! j)) [i + 1 - W..<i + 1]) / real W"

text \<open>A field of the statistics that a call returned, if it returned some.\<close>

definition stat_field ::
  "(TRMStatistics \<Rightarrow> 'a) \<Rightarrow> error + TRMStatistics option \<Rightarrow> 'a option" where
  "stat_field f r = (case r of Inr (Some s) \<Rightarrow> Some (f s) | _ \<Rightarrow> None)"

section \<open>Empty input\<close>

text \<open>
  C4. For the empty series, statistics returns None, the moving average returns the empty
  list and the extreme variations are the empty list; none of the three raises.
\<close>

theorem empty_series_no_exception:
  "calculate_statistics [] = Inr None
   \<and> calculate_moving_average [] w = Inr []
   \<and> find_extreme_variations [] t = Inr []"
  by (simp add: calculate_statistics_def calculate_moving_average_def find_extreme_variations_def)

section \<open>The sorted data frame\<close>

lemma insort_key_map_to:
  "insort_key f (g x) (map g xs) = map g (insort_key (\<lambda>y. f (g y)) x xs)"
  by (induction xs) auto

lemma sort_key_map_to: "sort_key f (map g xs) = map g (sort_key (\<lambda>y. f (g y)) xs)"
  by (induction xs) (auto simp: insort_key_map_to)

lemma sort_values_DataFrame:
  "sort_values (DataFrame data) = map to_dict (sort_key fecha data)"
  by (simp add: sort_values_def DataFrame_def sort_key_map_to to_dict_def)

lemma sort_key_nonempty: "xs \<noteq> [] \<Longrightarrow> sort_key f xs \<noteq> []"
  by (metis length_0_conv length_sort)

lemma sorted_frame_nonempty: "data \<noteq> [] \<Longrightarrow> sort_values (DataFrame data) \<noteq> []"
  by (simp add: sort_values_DataFrame sort_key_nonempty)

lemma iloc_first: "df \<noteq> [] \<Longrightarrow> iloc df 0 = Inr (hd df)"
  by (cases df) (simp_all add: iloc_def)

lemma iloc_last: "df \<noteq> [] \<Longrightarrow> iloc df (-1) = Inr (last df)"
  by (cases df) (simp_all add: iloc_def last_conv_nth nat_diff_distrib')

lemma date_min_Some: "ds \<noteq> [] \<Longrightarrow> date_min ds = Some (fold min (tl ds) (hd ds))"
  by (cases ds) simp_all

lemma date_max_Some: "ds \<noteq> [] \<Longrightarrow> date_max ds = Some (fold max (tl ds) (hd ds))"
  by (cases ds) simp_all

lemma sorted_hd_least:
  assumes "sorted (map f xs)" and "x \<in> set xs"
  shows "f (hd xs) \<le> f x"
  using assms by (cases xs) auto

lemma sorted_last_greatest:
  assumes "sorted (map f xs)" and "x \<in> set xs"
  shows "f x \<le> f (last xs)"
  using assms by (induction xs) (auto split: if_splits)

section \<open>Statistics\<close>

text \<open>On a non-empty list no branch of \<open>calculate_statistics\<close> fails, and the record it
  returns is the following.\<close>

lemma calculate_statistics_nonempty:
  assumes "data \<noteq> []"
  shows "calculate_statistics data = Inr (Some \<lparr>
           min_value = series_min (trm_col (sort_values (DataFrame data))),
           max_value = series_max (trm_col (sort_values (DataFrame data))),
           avg_value = series_mean (trm_col (sort_values (DataFrame data))),
           median_value = series_median (trm_col (sort_values (DataFrame data))),
           std_dev = series_std (trm_col (sort_values (DataFrame data))),
           count = length data,
           start_date = fold min (tl (fecha_col (sort_values (DataFrame data))))
                          (hd (fecha_col (sort_values (DataFrame data)))),
           end_date = fold max (tl (fecha_col (sort_values (DataFrame data))))
                          (hd (fecha_col (sort_values (DataFrame data)))),
           start_value = Fin (valor (hd (sort_key fecha data))),
           end_value = Fin (valor (last (sort_key fecha data))),
           change = Fin (valor (last (sort_key fecha data)) - valor (hd (sort_key fecha data))),
           change_pct = fl_mul (fl_sub (fl_div (Fin (valor (last (sort_key fecha data))))
                                   (Fin (valor (hd (sort_key fecha data))))) (Fin 1)) (Fin 100)\<rparr>)"
proof -
  let ?df = "sort_values (DataFrame data)"
  let ?S = "sort_key fecha data"
  have ne: "?df \<noteq> []" using assms by (rule sorted_frame_nonempty)
  have S_ne: "?S \<noteq> []" using assms by (rule sort_key_nonempty)
  have c_ne: "fecha_col ?df \<noteq> []" using ne by (simp add: fecha_col_def)
  have r0: "snd (hd ?df) = valor (hd ?S)"
    using S_ne by (simp add: sort_values_DataFrame hd_map to_dict_def)
  have r1: "snd (last ?df) = valor (last ?S)"
    using S_ne by (simp add: sort_values_DataFrame last_map to_dict_def)
  have len: "length ?df = length data"
    by (simp add: sort_values_DataFrame)
  show ?thesis
    unfolding calculate_statistics_def Let_def
    using assms
    by (simp add: iloc_first [OF ne] iloc_last [OF ne] date_min_Some [OF c_ne]
        date_max_Some [OF c_ne] r0 r1 len)
qed

text \<open>
  C1. For a non-empty series, statistics sorts the observations ascending by date (the
  sorted list is a permutation of the input, its first row has the earliest date and its
  last row the latest) and takes the start and end value from the first and the last row
  of the sorted list; the absolute change is end minus start, and the percent change is
  (end / start - 1) * 100 in the arithmetic of the floats.
\<close>

theorem statistics_start_end_positional:
  assumes "data \<noteq> []"
  shows "\<exists>s. calculate_statistics data = Inr (Some s)
           \<and> sorted (map fecha (sort_key fecha data))
           \<and> mset (sort_key fecha data) = mset data
           \<and> (\<forall>d \<in> set data. fecha (hd (sort_key fecha data)) \<le> fecha d
                              \<and> fecha d \<le> fecha (last (sort_key fecha data)))
           \<and> start_value s = Fin (valor (hd (sort_key fecha data)))
           \<and> end_value s = Fin (valor (last (sort_key fecha data)))
           \<and> change s = fl_sub (end_value s) (start_value s)
           \<and> change s = Fin (valor (last (sort_key fecha data)) - valor (hd (sort_key fecha data)))
           \<and> change_pct s = fl_mul (fl_sub (fl_div (end_value s) (start_value s)) (Fin 1)) (Fin 100)
           \<and> (valor (hd (sort_key fecha data)) \<noteq> 0 \<longrightarrow>
                change_pct s = Fin ((valor (last (sort_key fecha data))
                                      / valor (hd (sort_key fecha data)) - 1) * 100))"
proof -
  have srt: "sorted (map fecha (sort_key fecha data))" by simp
  have "\<forall>d \<in> set data. fecha (hd (sort_key fecha data)) \<le> fecha d
                       \<and> fecha d \<le> fecha (last (sort_key fecha data))"
    using sorted_hd_least [OF srt] sorted_last_greatest [OF srt] by simp
  then show ?thesis
    by (simp add: calculate_statistics_nonempty [OF assms])
qed

theorem statistics_start_end_positional_witness:
  "[\<lparr>fecha = (2024, 1, 3), valor = 99\<rparr>, \<lparr>fecha = (2024, 1, 1), valor = 100\<rparr>,
    \<lparr>fecha = (2024, 1, 2), valor = 110\<rparr>] \<noteq> []
   \<and> (\<exists>s. calculate_statistics
          [\<lparr>fecha = (2024, 1, 3), valor = 99\<rparr>, \<lparr>fecha = (2024, 1, 1), valor = 100\<rparr>,
           \<lparr>fecha = (2024, 1, 2), valor = 110\<rparr>] = Inr (Some s)
        \<and> start_value s = Fin 100 \<and> end_value s = Fin 99 \<and> change s = Fin (-1)
        \<and> change_pct s = Fin (-1))"
  using statistics_start_end_positional
    [of "[\<lparr>fecha = (2024, 1, 3), valor = 99\<rparr>, \<lparr>fecha = (2024, 1, 1), valor = 100\<rparr>,
          \<lparr>fecha = (2024, 1, 2), valor = 110\<rparr>]"]
  by auto

lemma trm_col_sorted: "trm_col (sort_values (DataFrame data)) = map valor (sort_key fecha data)"
  by (simp add: trm_col_def sort_values_DataFrame to_dict_def comp_def)











section \<open>Unique dates fix the sorted order\<close>

text \<open>With pairwise distinct dates there is one ascending arrangement of the rows only, so
  every sorting algorithm produces the list that \<open>sort_key\<close> produces.\<close>

lemma filter_same_key_single:
  "distinct (map f xs) \<Longrightarrow> k \<in> set xs \<Longrightarrow> filter (\<lambda>x. f k = f x) xs = [k]"
proof (induction xs)
  case Nil
  then show ?case by simp
next
  case (Cons a xs)
  show ?case
  proof (cases "k = a")
    case True
    have "filter (\<lambda>x. f a = f x) xs = []"
      using Cons.prems(1) by (auto simp: filter_empty_conv)
    then show ?thesis using True by simp
  next
    case False
    then have k: "k \<in> set xs" using Cons.prems(2) by simp
    then have "f k \<noteq> f a" using Cons.prems(1) by (metis distinct.simps(2) image_eqI list.simps(9) set_map)
    then show ?thesis using Cons.IH k Cons.prems(1) by simp
  qed
qed

lemma sorted_by_date_unique:
  assumes "distinct (map fecha data)" and "mset ys = mset data" and "sorted (map fecha ys)"
  shows "sort_key fecha data = ys"
proof (rule properties_for_sort_key [OF assms(2) _ assms(3)])
  fix k assume k: "k \<in> set ys"
  have "mset (map fecha ys) = mset (map fecha data)" using assms(2) by simp
  then have d: "distinct (map fecha ys)" using assms(1) by (metis mset_eq_imp_distinct_iff)
  have k': "k \<in> set data" using k assms(2) by (metis mset_eq_setD)
  show "filter (\<lambda>x. fecha k = fecha x) ys = filter (\<lambda>x. fecha k = fecha x) data"
    using filter_same_key_single [OF d k] filter_same_key_single [OF assms(1) k'] by simp
qed

section \<open>A series of one point\<close>

lemma calculate_statistics_single:
  "calculate_statistics [p] = Inr (Some \<lparr>
     min_value = Fin (valor p), max_value = Fin (valor p), avg_value = Fin (valor p),
     median_value = Fin (valor p), std_dev = NaN, count = 1,
     start_date = fecha p, end_date = fecha p,
     start_value = Fin (valor p), end_value = Fin (valor p), change = Fin 0,
     change_pct = (if valor p = 0 then NaN else Fin 0)\<rparr>)"
  by (simp add: calculate_statistics_nonempty trm_col_def fecha_col_def sort_values_DataFrame
      to_dict_def series_mean_def series_median_def series_std_def signed_inf_def)

text \<open>
  C6 (as amended). For a series of one point, statistics is defined, the sample standard
  deviation is NaN (never 0), the change is 0, and the percent change is 0 when the value
  is not zero; for the value 0 the percent change is 0/0, which is NaN.
\<close>

theorem single_point_statistics:
  "\<exists>s. calculate_statistics [p] = Inr (Some s)
       \<and> count s = 1
       \<and> std_dev s = NaN
       \<and> change s = Fin 0
       \<and> change_pct s = (if valor p = 0 then NaN else Fin 0)"
  by (simp add: calculate_statistics_single)

text \<open>C6 as stated fails for one point of value 0: the percent change is NaN, not 0.\<close>

theorem single_point_zero_change_pct_nan:
  "stat_field change_pct (calculate_statistics [\<lparr>fecha = (2024, 1, 1), valor = 0\<rparr>]) = Some NaN
   \<and> stat_field change_pct (calculate_statistics [\<lparr>fecha = (2024, 1, 1), valor = 0\<rparr>])
       \<noteq> Some (Fin 0)"
  by (simp add: calculate_statistics_single stat_field_def)

section \<open>Moving average\<close>

lemma take_drop_nth: "s + n \<le> length xs \<Longrightarrow> take n (drop s xs) = map (\<lambda>j. xs ! j) [s..<s + n]"
  by (rule nth_equalityI) simp_all

lemma rolling_window_value:
  assumes "i < length xs"
  shows "(case get_window_bounds W i of (s, e) \<Rightarrow> window_mean W (take (e - s) (drop s xs)))
         = (if 1 \<le> W \<and> W \<le> i + 1
            then Fin (sum_list (map (\<lambda>j. xs ! j) [i + 1 - W..<i + 1]) / real W) else NaN)"
proof (cases "1 \<le> W \<and> W \<le> i + 1")
  case True
  then have eq: "i + 1 - (i + 1 - W) = W" by arith
  have le: "i + 1 - W + W \<le> length xs" using True assms by arith
  have up: "i + 1 - W + W = i + 1" using True by arith
  have win: "take W (drop (i + 1 - W) xs) = map (\<lambda>j. xs ! j) [i + 1 - W..<i + 1]"
    using take_drop_nth [OF le] up by simp
  have len: "length (map (\<lambda>j. xs ! j) [i + 1 - W..<i + 1]) = W"
    using True by simp arith
  have "window_mean W (take W (drop (i + 1 - W) xs))
        = Fin (sum_list (map (\<lambda>j. xs ! j) [i + 1 - W..<i + 1]) / real W)"
    unfolding win window_mean_def Let_def len using True by simp
  then show ?thesis using True eq
    by (simp only: get_window_bounds_def prod.case simp_thms if_True)
next
  case False
  then consider "W = 0" | "i + 1 < W" by arith
  then show ?thesis
  proof cases
    case 1
    then show ?thesis by (simp add: get_window_bounds_def window_mean_def)
  next
    case 2
    then have "i + 1 - W = 0" by simp
    then show ?thesis using 2 assms False
      by (simp add: get_window_bounds_def window_mean_def)
  qed
qed

lemma rolling_mean_nonneg:
  assumes "0 \<le> w"
  shows "rolling_mean w xs = Inr (map (\<lambda>i. if 1 \<le> nat w \<and> nat w \<le> i + 1
            then Fin (sum_list (map (\<lambda>j. xs ! j) [i + 1 - nat w..<i + 1]) / real (nat w)) else NaN)
          [0..<length xs])"
  using assms by (simp add: rolling_mean_def Let_def rolling_window_value del: One_nat_def cong: map_cong)

lemma zip_map_upt:
  "length xs = n \<Longrightarrow> zip xs (map g [0..<n]) = map (\<lambda>i. (xs ! i, g i)) [0..<n]"
  by (rule nth_equalityI) simp_all

lemma calculate_moving_average_nonneg:
  assumes "0 \<le> w"
  shows "calculate_moving_average data w =
         Inr (map (\<lambda>i. \<lparr>ma_fecha = fecha (sort_key fecha data ! i),
                         ma_valor = valor (sort_key fecha data ! i),
                         promedio_movil =
                           (if 1 \<le> nat w \<and> nat w \<le> i + 1
                            then Some (Fin (trailing_mean (sort_key fecha data) (nat w) i))
                            else None),
                         window = w\<rparr>)
                  [0..<length data])"
proof (cases "data = []")
  case True
  then show ?thesis by (simp add: calculate_moving_average_def)
next
  case False
  let ?S = "sort_key fecha data"
  let ?df = "sort_values (DataFrame data)"
  let ?g = "\<lambda>i. if 1 \<le> nat w \<and> nat w \<le> i + 1
            then Fin (sum_list (map (\<lambda>j. trm_col ?df ! j) [i + 1 - nat w..<i + 1]) / real (nat w))
            else NaN"
  have len: "length ?df = length data" by (simp add: sort_values_DataFrame)
  have lenc: "length (trm_col ?df) = length data" by (simp add: trm_col_sorted)
  have rm: "rolling_mean w (trm_col ?df) = Inr (map ?g [0..<length data])"
    using rolling_mean_nonneg [OF assms, of "trm_col ?df"] lenc by simp
  have zp: "zip ?df (map ?g [0..<length data]) = map (\<lambda>i. (?df ! i, ?g i)) [0..<length data]"
    by (rule zip_map_upt [OF len])
  have row: "\<And>i. i < length data \<Longrightarrow> ?df ! i = (fecha (?S ! i), valor (?S ! i))"
    by (simp add: sort_values_DataFrame to_dict_def)
  have sum: "\<And>i. i < length data \<Longrightarrow>
      sum_list (map (\<lambda>j. trm_col ?df ! j) [i + 1 - nat w..<i + 1])
      = sum_list (map (\<lambda>j. valor (?S ! j)) [i + 1 - nat w..<i + 1])"
    by (rule arg_cong [where f = sum_list], rule map_cong) (auto simp: trm_col_sorted)
  let ?F = "\<lambda>(r, m). \<lparr>ma_fecha = fst r, ma_valor = snd r,
                        promedio_movil = (if isna m then None else Some m), window = w\<rparr>"
  have "calculate_moving_average data w = Inr (map ?F (zip ?df (map ?g [0..<length data])))"
    unfolding calculate_moving_average_def Let_def
    using False by (simp only: rm if_False sum.case)
  also have "map ?F (zip ?df (map ?g [0..<length data]))
             = map (\<lambda>i. ?F (?df ! i, ?g i)) [0..<length data]"
    by (simp only: zp map_map comp_def)
  also have "\<dots> = map (\<lambda>i. \<lparr>ma_fecha = fecha (?S ! i), ma_valor = valor (?S ! i),
                         promedio_movil =
                           (if 1 \<le> nat w \<and> nat w \<le> i + 1
                            then Some (Fin (trailing_mean ?S (nat w) i)) else None),
                         window = w\<rparr>) [0..<length data]"
    by (rule map_cong) (simp_all add: row sum isna_def trailing_mean_def del: One_nat_def)
  finally show ?thesis .
qed

text \<open>
  C3. For a window w of at least 1, the moving average at position i of the date-sorted
  series is present iff i \<ge> w - 1, and then it is the arithmetic mean of the w values at
  the positions i - w + 1 .. i (rows, not calendar days); for w = 1 it is the value of the
  point itself.
\<close>

theorem moving_average_trailing_mean:
  assumes "1 \<le> w"
  shows "\<exists>res. calculate_moving_average data w = Inr res
           \<and> length res = length data
           \<and> (\<forall>i < length data.
                 (promedio_movil (res ! i) \<noteq> None \<longleftrightarrow> nat w - 1 \<le> i)
               \<and> (nat w - 1 \<le> i \<longrightarrow>
                    promedio_movil (res ! i)
                    = Some (Fin (sum_list (map (\<lambda>j. valor (sort_key fecha data ! j))
                                              [i + 1 - nat w..<i + 1]) / real_of_int w)))
               \<and> (w = 1 \<longrightarrow> promedio_movil (res ! i) = Some (Fin (valor (sort_key fecha data ! i)))))"
proof -
  have w0: "0 \<le> w" using assms by simp
  have c: "\<And>i. (1 \<le> nat w \<and> nat w \<le> i + 1) = (nat w - 1 \<le> i)"
    using assms by auto
  have r: "real (nat w) = real_of_int w" using assms by simp
  show ?thesis
    unfolding calculate_moving_average_nonneg [OF w0]
    by (simp add: c r trailing_mean_def del: One_nat_def) auto
qed

theorem moving_average_trailing_mean_witness:
  "(1::int) \<le> 2
   \<and> (\<exists>res. calculate_moving_average
          [\<lparr>fecha = (2024, 1, 3), valor = 99\<rparr>, \<lparr>fecha = (2024, 1, 1), valor = 100\<rparr>,
           \<lparr>fecha = (2024, 1, 2), valor = 110\<rparr>] 2 = Inr res
        \<and> length res = 3
        \<and> promedio_movil (res ! 0) = None
        \<and> promedio_movil (res ! 1) = Some (Fin 105)
        \<and> promedio_movil (res ! 2) = Some (Fin (209 / 2)))"
proof -
  let ?D = "[\<lparr>fecha = (2024, 1, 3), valor = 99\<rparr>, \<lparr>fecha = (2024, 1, 1), valor = 100\<rparr>,
             \<lparr>fecha = (2024, 1, 2), valor = 110\<rparr>]"
  have h: "(1::int) \<le> 2" by simp
  have S: "sort_key fecha ?D = [\<lparr>fecha = (2024, 1, 1), valor = 100\<rparr>,
             \<lparr>fecha = (2024, 1, 2), valor = 110\<rparr>, \<lparr>fecha = (2024, 1, 3), valor = 99\<rparr>]"
    by simp
  from moving_average_trailing_mean [OF h, of ?D] obtain res where
    r: "calculate_moving_average ?D 2 = Inr res" "length res = length ?D" and
    a: "\<forall>i < length ?D.
          (promedio_movil (res ! i) \<noteq> None \<longleftrightarrow> nat 2 - 1 \<le> i)
        \<and> (nat 2 - 1 \<le> i \<longrightarrow>
             promedio_movil (res ! i)
             = Some (Fin (sum_list (map (\<lambda>j. valor (sort_key fecha ?D ! j))
                                       [i + 1 - nat 2..<i + 1]) / real_of_int 2)))
        \<and> ((2::int) = 1 \<longrightarrow> promedio_movil (res ! i) = Some (Fin (valor (sort_key fecha ?D ! i))))"
    by blast
  have p0: "promedio_movil (res ! 0) = None"
    using a [rule_format, of 0] by simp
  have p1: "promedio_movil (res ! 1) = Some (Fin 105)"
    using a [rule_format, of 1] unfolding S by (simp add: upt_rec)
  have p2: "promedio_movil (res ! 2) = Some (Fin (209 / 2))"
    using a [rule_format, of 2] unfolding S by (simp add: upt_rec)
  show ?thesis using h r p0 p1 p2 by simp
qed

lemma map_nth_upt: "map (\<lambda>i. f (xs ! i)) [0..<length xs] = map f xs"
  by (rule nth_equalityI) simp_all

text \<open>
  C10. For a non-empty list and a window of at least 1, the moving average returns one
  point per observation: as many points as observations, with the dates and the values of
  the observations unchanged, in ascending order of date, each carrying the window.
\<close>

theorem moving_average_one_point_per_observation:
  assumes "data \<noteq> []" and "1 \<le> w"
  shows "\<exists>res. calculate_moving_average data w = Inr res
           \<and> length res = length data
           \<and> map (\<lambda>p. (ma_fecha p, ma_valor p)) res
               = map (\<lambda>d. (fecha d, valor d)) (sort_key fecha data)
           \<and> mset (map (\<lambda>p. (ma_fecha p, ma_valor p)) res)
               = mset (map (\<lambda>d. (fecha d, valor d)) data)
           \<and> sorted (map ma_fecha res)
           \<and> (\<forall>p \<in> set res. window p = w)"
proof -
  let ?S = "sort_key fecha data"
  have w0: "0 \<le> w" using assms by simp
  obtain res where res: "calculate_moving_average data w = Inr res"
    and def: "res = map (\<lambda>i. \<lparr>ma_fecha = fecha (?S ! i), ma_valor = valor (?S ! i),
                         promedio_movil =
                           (if 1 \<le> nat w \<and> nat w \<le> i + 1
                            then Some (Fin (trailing_mean ?S (nat w) i)) else None),
                         window = w\<rparr>) [0..<length data]"
    using calculate_moving_average_nonneg [OF w0] by blast
  have len: "length res = length data" by (simp add: def)
  have pairs: "map (\<lambda>p. (ma_fecha p, ma_valor p)) res = map (\<lambda>d. (fecha d, valor d)) ?S"
    using map_nth_upt [of "\<lambda>d. (fecha d, valor d)" ?S] by (simp add: def comp_def)
  have dates: "map ma_fecha res = map fecha ?S"
    using map_nth_upt [of fecha ?S] by (simp add: def comp_def)
  have ms: "mset (map (\<lambda>p. (ma_fecha p, ma_valor p)) res) = mset (map (\<lambda>d. (fecha d, valor d)) data)"
    unfolding pairs by simp
  have srt: "sorted (map ma_fecha res)" unfolding dates by simp
  have win: "\<forall>p \<in> set res. window p = w" by (auto simp: def)
  show ?thesis using res len pairs ms srt win by blast
qed

theorem moving_average_one_point_per_observation_witness:
  "[\<lparr>fecha = (2024, 1, 3), valor = 99\<rparr>, \<lparr>fecha = (2024, 1, 1), valor = 100\<rparr>] \<noteq> []
   \<and> (1::int) \<le> 5
   \<and> (\<exists>res. calculate_moving_average
          [\<lparr>fecha = (2024, 1, 3), valor = 99\<rparr>, \<lparr>fecha = (2024, 1, 1), valor = 100\<rparr>] 5 = Inr res
        \<and> length res = 2
        \<and> map (\<lambda>p. (ma_fecha p, ma_valor p)) res = [((2024, 1, 1), 100), ((2024, 1, 3), 99)])"
proof -
  let ?D = "[\<lparr>fecha = (2024, 1, 3), valor = 99\<rparr>, \<lparr>fecha = (2024, 1, 1), valor = 100\<rparr>]"
  have h1: "?D \<noteq> []" by simp
  have h2: "(1::int) \<le> 5" by simp
  show ?thesis
    using moving_average_one_point_per_observation [OF h1 h2] h2 by auto
qed

text \<open>
  C5 (as amended). For a non-empty series, the window 0 gives every point with the moving
  average absent and no error; a negative window is rejected by the rolling window with
  ValueError, which the service does not catch.
\<close>

theorem moving_average_nonpositive_window:
  assumes "data \<noteq> []"
  shows "(\<exists>res. calculate_moving_average data 0 = Inr res
            \<and> length res = length data
            \<and> (\<forall>p \<in> set res. promedio_movil p = None))
         \<and> (w < 0 \<longrightarrow> calculate_moving_average data w = Inl ValueError)"
proof -
  have neg: "w < 0 \<longrightarrow> calculate_moving_average data w = Inl ValueError"
    using assms by (simp add: calculate_moving_average_def rolling_mean_def)
  have zero: "\<exists>res. calculate_moving_average data 0 = Inr res
            \<and> length res = length data
            \<and> (\<forall>p \<in> set res. promedio_movil p = None)"
    unfolding calculate_moving_average_nonneg [OF order_refl]
    by auto
  show ?thesis using neg zero by blast
qed

theorem moving_average_nonpositive_window_witness:
  "[\<lparr>fecha = (2024, 1, 3), valor = 99\<rparr>, \<lparr>fecha = (2024, 1, 1), valor = 100\<rparr>] \<noteq> []
   \<and> (\<exists>res. calculate_moving_average
          [\<lparr>fecha = (2024, 1, 3), valor = 99\<rparr>, \<lparr>fecha = (2024, 1, 1), valor = 100\<rparr>] 0 = Inr res
        \<and> length res = 2 \<and> map promedio_movil res = [None, None])
   \<and> calculate_moving_average
          [\<lparr>fecha = (2024, 1, 3), valor = 99\<rparr>, \<lparr>fecha = (2024, 1, 1), valor = 100\<rparr>] (-3)
       = Inl ValueError"
proof -
  let ?D = "[\<lparr>fecha = (2024, 1, 3), valor = 99\<rparr>, \<lparr>fecha = (2024, 1, 1), valor = 100\<rparr>]"
  have h: "?D \<noteq> []" by simp
  from moving_average_nonpositive_window [OF h, of "-3"] obtain res where
    r: "calculate_moving_average ?D 0 = Inr res" "length res = length ?D"
       "\<forall>p \<in> set res. promedio_movil p = None"
    and n: "calculate_moving_average ?D (-3) = Inl ValueError"
    by auto
  have "map promedio_movil res = [None, None]"
    using r(2,3) by (intro nth_equalityI) (auto simp: less_Suc_eq)
  then show ?thesis using h r n by simp
qed

text \<open>C5 as stated fails for a negative window: the call raises ValueError.\<close>

theorem moving_average_negative_window_raises:
  "calculate_moving_average [\<lparr>fecha = (2024, 1, 1), valor = 100\<rparr>] (-1) = Inl ValueError"
  by (simp add: calculate_moving_average_def rolling_mean_def)

section \<open>Extreme variations\<close>











section \<open>Range filter\<close>

lemma range_filter_eq: "range_filter repo S a b = filter (in_range a b) S"
proof -
  have unrow: "(\<lambda>r. \<lparr>fecha = fst r, valor = snd r\<rparr>) \<circ> to_dict = id"
    by (simp add: fun_eq_iff to_dict_def)
  have f1: "filter P (map to_dict xs) = map to_dict (filter (\<lambda>d. P (to_dict d)) xs)"
    for P and xs :: "TRMData list"
    by (simp add: filter_map comp_def)
  show ?thesis
    by (cases a; cases b)
      (simp_all add: range_filter_def get_by_date_range_def DataFrame_def in_range_def Let_def
        f1 unrow to_dict_def cong: filter_cong)
qed

text \<open>
  C8. For every series and every pair of optional bounds, the range filter keeps exactly
  the observations whose date is at least the start bound (if given) and at most the end
  bound (if given), in their order, and filtering the result again with the same bounds
  changes nothing.
\<close>

theorem range_filter_idempotent:
  "range_filter repo S a b = filter (in_range a b) S
   \<and> range_filter repo (range_filter repo S a b) a b = range_filter repo S a b"
  by (simp add: range_filter_eq)

section \<open>A bound that fails to parse\<close>





end
